theory Spec2Isabelle
  imports Complex_Main
begin

section \<open>Values, errors and rounding\<close>

text \<open>
  Every \<^verbatim>\<open>raise\<close> of the source, every failing Python built-in and the \<^verbatim>\<open>exit(0)\<close> of the
  batch helper is a value of \<open>error\<close>; a metric returns \<open>error + 'a\<close>.
\<close>

datatype error =
    ValueError string
  | ShapeError
  | AttributeError string
  | TypeError string
  | ZeroDivisionError
  | SystemExit int

text \<open>
  A numpy \<^verbatim>\<open>float64\<close> is idealised as an exact real number or one of the three special
  values that numpy produces instead of raising (division by zero, \<^verbatim>\<open>-np.inf\<close> sentinels).
  Binary rounding error and the sign of zero are not represented.
\<close>

datatype npfloat = Fin real | PosInf | NegInf | NaN

fun np_neg :: "npfloat \<Rightarrow> npfloat" where
  "np_neg (Fin x) = Fin (- x)"
| "np_neg PosInf = NegInf"
| "np_neg NegInf = PosInf"
| "np_neg NaN = NaN"

fun np_add :: "npfloat \<Rightarrow> npfloat \<Rightarrow> npfloat" where
  "np_add NaN _ = NaN"
| "np_add _ NaN = NaN"
| "np_add (Fin x) (Fin y) = Fin (x + y)"
| "np_add PosInf NegInf = NaN"
| "np_add NegInf PosInf = NaN"
| "np_add PosInf _ = PosInf"
| "np_add _ PosInf = PosInf"
| "np_add NegInf _ = NegInf"
| "np_add _ NegInf = NegInf"

definition np_sub :: "npfloat \<Rightarrow> npfloat \<Rightarrow> npfloat" where
  "np_sub a b = np_add a (np_neg b)"

definition signed_inf :: "bool \<Rightarrow> npfloat" where
  "signed_inf positive = (if positive then PosInf else NegInf)"

fun np_mul :: "npfloat \<Rightarrow> npfloat \<Rightarrow> npfloat" where
  "np_mul NaN _ = NaN"
| "np_mul _ NaN = NaN"
| "np_mul (Fin x) (Fin y) = Fin (x * y)"
| "np_mul (Fin x) PosInf = (if x = 0 then NaN else signed_inf (0 < x))"
| "np_mul (Fin x) NegInf = (if x = 0 then NaN else signed_inf (x < 0))"
| "np_mul PosInf (Fin y) = (if y = 0 then NaN else signed_inf (0 < y))"
| "np_mul NegInf (Fin y) = (if y = 0 then NaN else signed_inf (y < 0))"
| "np_mul PosInf PosInf = PosInf"
| "np_mul NegInf NegInf = PosInf"
| "np_mul PosInf NegInf = NegInf"
| "np_mul NegInf PosInf = NegInf"

fun np_div :: "npfloat \<Rightarrow> npfloat \<Rightarrow> npfloat" where
  "np_div NaN _ = NaN"
| "np_div _ NaN = NaN"
| "np_div (Fin x) (Fin y) =
     (if y \<noteq> 0 then Fin (x / y) else if x = 0 then NaN else signed_inf (0 < x))"
| "np_div (Fin x) PosInf = Fin 0"
| "np_div (Fin x) NegInf = Fin 0"
| "np_div PosInf (Fin y) = signed_inf (0 \<le> y)"
| "np_div NegInf (Fin y) = signed_inf (y < 0)"
| "np_div PosInf _ = NaN"
| "np_div NegInf _ = NaN"

fun np_sqrt :: "npfloat \<Rightarrow> npfloat" where
  "np_sqrt (Fin x) = (if x < 0 then NaN else Fin (sqrt x))"
| "np_sqrt PosInf = PosInf"
| "np_sqrt NegInf = NaN"
| "np_sqrt NaN = NaN"

text \<open>
  \<^verbatim>\<open>np.round(x, decimal)\<close>: scale by a power of ten, round half to even, scale back.
  The special values pass through unchanged.
\<close>

definition rint :: "real \<Rightarrow> int" where
  "rint x =
     (let f = \<lfloor>x\<rfloor>; r = x - of_int f
      in if r < 1 / 2 then f
         else if 1 / 2 < r then f + 1
         else if even f then f else f + 1)"

definition round_real :: "real \<Rightarrow> int \<Rightarrow> real" where
  "round_real x decimal =
     (if 0 \<le> decimal
      then of_int (rint (x * 10 ^ nat decimal)) / 10 ^ nat decimal
      else of_int (rint (x / 10 ^ nat (- decimal))) * 10 ^ nat (- decimal))"

fun np_round :: "npfloat \<Rightarrow> int \<Rightarrow> npfloat" where
  "np_round (Fin x) decimal = Fin (round_real x decimal)"
| "np_round PosInf decimal = PosInf"
| "np_round NegInf decimal = NegInf"
| "np_round NaN decimal = NaN"

section \<open>The clustering evaluator\<close>

text \<open>
  \<^verbatim>\<open>ClusteringMetric.__init__\<close>: the fields an instance carries. \<^verbatim>\<open>X\<close> is the feature matrix
  as a list of rows. The defaults are \<^verbatim>\<open>decimal=5\<close>, \<^verbatim>\<open>raise_error=False\<close>,
  \<^verbatim>\<open>biggest_value=np.inf\<close>, \<^verbatim>\<open>smallest_value=-np.inf\<close>.
\<close>

record 'l clustering_metric =
  self_y_true :: "'l list option"
  self_y_pred :: "'l list option"
  self_X :: "real list list option"
  self_decimal :: int
  self_raise_error :: bool
  self_biggest_value :: npfloat
  self_smallest_value :: npfloat

definition ClusteringMetric ::
  "'l list option \<Rightarrow> 'l list option \<Rightarrow> real list list option \<Rightarrow> int \<Rightarrow> bool \<Rightarrow>
   npfloat option \<Rightarrow> npfloat option \<Rightarrow> 'l clustering_metric" where
  "ClusteringMetric y_true y_pred X decimal raise_error biggest_value smallest_value =
     \<lparr> self_y_true = y_true, self_y_pred = y_pred, self_X = X, self_decimal = decimal,
       self_raise_error = raise_error,
       self_biggest_value = (case biggest_value of None \<Rightarrow> PosInf | Some v \<Rightarrow> v),
       self_smallest_value = (case smallest_value of None \<Rightarrow> NegInf | Some v \<Rightarrow> v) \<rparr>"

subsection \<open>Label encoding\<close>

fun index_of :: "'a \<Rightarrow> 'a list \<Rightarrow> nat" where
  "index_of x [] = 0"
| "index_of x (c # cs) = (if x = c then 0 else Suc (index_of x cs))"

text \<open>
  Modelled from the spec: \<^verbatim>\<open>permetrics.utils.data_util\<close> is not part of the sources at hand.
  Section 4.1: the encoder is a bijection from the sorted distinct label values observed to
  \<open>0..K-1\<close>, built for the true and for the predicted label vector independently.
\<close>

definition label_encode :: "'l::linorder list \<Rightarrow> nat list" where
  "label_encode ys = map (\<lambda>y. index_of y (sort (remdups ys))) ys"

text \<open>
  Modelled from the spec: \<^verbatim>\<open>du.format_external_clustering_data\<close> and
  \<^verbatim>\<open>du.format_internal_clustering_data\<close> (section 4.1 for the encoding, section 7 for the
  length mismatch, which is surfaced and never truncated). The encoder object they also
  return is stored in \<^verbatim>\<open>self.le\<close> and read by no metric; it is left out.
\<close>

definition format_external_clustering_data ::
  "'l::linorder list \<Rightarrow> 'l list \<Rightarrow> error + (nat list \<times> nat list)" where
  "format_external_clustering_data y_true y_pred =
     (if length y_true \<noteq> length y_pred then Inl ShapeError
      else Inr (label_encode y_true, label_encode y_pred))"

definition format_internal_clustering_data :: "'l::linorder list \<Rightarrow> error + nat list" where
  "format_internal_clustering_data y_pred = Inr (label_encode y_pred)"

subsection \<open>Input resolution\<close>

definition msg_external :: string where
  "msg_external = ''You need to pass y_true and y_pred to calculate external clustering metrics.''"

definition msg_internal :: string where
  "msg_internal = ''You need to pass y_pred to calculate external clustering metrics.''"

definition msg_X :: string where
  "msg_X = ''To calculate internal metrics, you need to pass X.''"

definition get_processed_external_data ::
  "('l::linorder) clustering_metric \<Rightarrow> 'l list option \<Rightarrow> 'l list option \<Rightarrow> int option \<Rightarrow>
   error + (nat list \<times> nat list \<times> int)" where
  "get_processed_external_data self y_true y_pred decimal =
     (let decimal = (case decimal of None \<Rightarrow> self_decimal self | Some d \<Rightarrow> d)
      in case y_pred of
           None \<Rightarrow>
             (case self_y_pred self of
                None \<Rightarrow> Inl (ValueError msg_external)
              | Some sp \<Rightarrow>
                  (case self_y_true self of
                     None \<Rightarrow> Inl (ValueError msg_external)
                   | Some st \<Rightarrow>
                       (case format_external_clustering_data st sp of
                          Inl e \<Rightarrow> Inl e
                        | Inr (yt, yp) \<Rightarrow> Inr (yt, yp, decimal))))
         | Some p \<Rightarrow>
             (case y_true of
                None \<Rightarrow> Inl (ValueError msg_external)
              | Some t \<Rightarrow>
                  (case format_external_clustering_data t p of
                     Inl e \<Rightarrow> Inl e
                   | Inr (yt, yp) \<Rightarrow> Inr (yt, yp, decimal))))"

definition get_processed_internal_data ::
  "('l::linorder) clustering_metric \<Rightarrow> 'l list option \<Rightarrow> int option \<Rightarrow> error + (nat list \<times> int)" where
  "get_processed_internal_data self y_pred decimal =
     (let decimal = (case decimal of None \<Rightarrow> self_decimal self | Some d \<Rightarrow> d)
      in case y_pred of
           None \<Rightarrow>
             (case self_y_pred self of
                None \<Rightarrow> Inl (ValueError msg_internal)
              | Some sp \<Rightarrow>
                  (case format_internal_clustering_data sp of
                     Inl e \<Rightarrow> Inl e
                   | Inr yp \<Rightarrow> Inr (yp, decimal)))
         | Some p \<Rightarrow>
             (case format_internal_clustering_data p of
                Inl e \<Rightarrow> Inl e
              | Inr yp \<Rightarrow> Inr (yp, decimal)))"

definition check_X :: "'l clustering_metric \<Rightarrow> real list list option \<Rightarrow> error + real list list" where
  "check_X self X =
     (case X of
        None \<Rightarrow> (case self_X self of None \<Rightarrow> Inl (ValueError msg_X) | Some sx \<Rightarrow> Inr sx)
      | Some x \<Rightarrow> Inr x)"

subsection \<open>Pair enumeration\<close>

text \<open>
  \<^verbatim>\<open>for idx in range(n): for jdx in range(idx + 1, n)\<close>: the index pairs in the order the
  nested loops visit them.
\<close>

definition pair_indices :: "nat \<Rightarrow> (nat \<times> nat) list" where
  "pair_indices n = concat (map (\<lambda>idx. map (\<lambda>jdx. (idx, jdx)) [idx + 1 ..< n]) [0 ..< n])"

text \<open>
  Modelled from the spec: \<^verbatim>\<open>cu.compute_confusion_matrix\<close> lives in
  \<^verbatim>\<open>permetrics.utils.cluster_util\<close>, which is not part of the sources at hand. Section 4.2:
  for all \<open>i < j\<close>, \<open>same_true = (y_true[i] == y_true[j])\<close>, \<open>same_pred = (y_pred[i] == y_pred[j])\<close>;
  increment \<open>yy\<close> if both same, \<open>nn\<close> if both different, \<open>yn\<close> if same_true only, \<open>ny\<close> if
  same_pred only. With \<open>normalize\<close>, all four counts are divided by \<open>N*(N-1)/2\<close>.
\<close>

definition cm_step ::
  "nat list \<Rightarrow> nat list \<Rightarrow> nat \<times> nat \<Rightarrow> nat \<times> nat \<times> nat \<times> nat \<Rightarrow> nat \<times> nat \<times> nat \<times> nat" where
  "cm_step y_true y_pred ij acc =
     (case (ij, acc) of ((i, j), (yy, yn, ny, nn)) \<Rightarrow>
        (let same_true = (y_true ! i = y_true ! j);
             same_pred = (y_pred ! i = y_pred ! j)
         in if same_true \<and> same_pred then (yy + 1, yn, ny, nn)
            else if \<not> same_true \<and> \<not> same_pred then (yy, yn, ny, nn + 1)
            else if same_true then (yy, yn + 1, ny, nn)
            else (yy, yn, ny + 1, nn)))"

definition compute_confusion_matrix :: "nat list \<Rightarrow> nat list \<Rightarrow> nat \<times> nat \<times> nat \<times> nat" where
  "compute_confusion_matrix y_true y_pred =
     fold (cm_step y_true y_pred) (pair_indices (length y_true)) (0, 0, 0, 0)"

definition compute_confusion_matrix_normalized ::
  "nat list \<Rightarrow> nat list \<Rightarrow> npfloat \<times> npfloat \<times> npfloat \<times> npfloat" where
  "compute_confusion_matrix_normalized y_true y_pred =
     (case compute_confusion_matrix y_true y_pred of (yy, yn, ny, nn) \<Rightarrow>
        (let N = length y_true; total = Fin (real (N * (N - 1)) / 2)
         in (np_div (Fin (real yy)) total, np_div (Fin (real yn)) total,
             np_div (Fin (real ny)) total, np_div (Fin (real nn)) total)))"

subsection \<open>External metrics\<close>

definition np_unique :: "'a::linorder list \<Rightarrow> 'a list" where
  "np_unique xs = sort (remdups xs)"

definition rand_step :: "nat list \<Rightarrow> nat list \<Rightarrow> nat \<times> nat \<Rightarrow> nat \<times> nat \<Rightarrow> nat \<times> nat" where
  "rand_step y_true y_pred ij acc =
     (case (ij, acc) of ((idx, jdx), (a, b)) \<Rightarrow>
        (let same_cluster_true = (y_true ! idx = y_true ! jdx);
             same_cluster_pred = (y_pred ! idx = y_pred ! jdx)
         in if same_cluster_true \<and> same_cluster_pred then (a + 1, b)
            else if \<not> same_cluster_true \<and> \<not> same_cluster_pred then (a, b + 1)
            else (a, b)))"

text \<open>
  \<^verbatim>\<open>n_pairs\<close> is a Python float and \<^verbatim>\<open>a + b\<close> a Python int, so a zero \<^verbatim>\<open>n_pairs\<close> (fewer than two
  samples) raises \<^verbatim>\<open>ZeroDivisionError\<close>.
\<close>

definition rand_score ::
  "('l::linorder) clustering_metric \<Rightarrow> 'l list option \<Rightarrow> 'l list option \<Rightarrow> int option \<Rightarrow>
   error + npfloat" where
  "rand_score self y_true y_pred decimal =
     (case get_processed_external_data self y_true y_pred decimal of
        Inl e \<Rightarrow> Inl e
      | Inr (yt, yp, decimal) \<Rightarrow>
          (let n_samples = length yt;
               n_pairs = real (n_samples * (n_samples - 1)) / 2;
               (a, b) = fold (rand_step yt yp) (pair_indices n_samples) (0, 0)
           in if n_pairs = 0 then Inl ZeroDivisionError
              else Inr (np_round (Fin (real (a + b) / n_pairs)) decimal)))"

definition fm_step ::
  "nat list \<Rightarrow> nat list \<Rightarrow> nat \<times> nat \<Rightarrow> nat \<times> nat \<times> nat \<Rightarrow> nat \<times> nat \<times> nat" where
  "fm_step y_true y_pred ij acc =
     (case (ij, acc) of ((idx, jdx), (TP, FP, FN)) \<Rightarrow>
        (let a = (y_true ! idx = y_true ! jdx);
             b = (y_pred ! idx = y_pred ! jdx)
         in if a \<and> b then (TP + 1, FP, FN)
            else if a \<and> \<not> b then (TP, FP, FN + 1)
            else if \<not> a \<and> b then (TP, FP + 1, FN)
            else (TP, FP, FN)))"

text \<open>\<^verbatim>\<open>np.sqrt\<close> returns a numpy float, so the division yields \<^verbatim>\<open>nan\<close> instead of raising.\<close>

definition fowlkes_mallows_score ::
  "('l::linorder) clustering_metric \<Rightarrow> 'l list option \<Rightarrow> 'l list option \<Rightarrow> int option \<Rightarrow>
   error + npfloat" where
  "fowlkes_mallows_score self y_true y_pred decimal =
     (case get_processed_external_data self y_true y_pred decimal of
        Inl e \<Rightarrow> Inl e
      | Inr (yt, yp, decimal) \<Rightarrow>
          (let n_samples = length yt;
               (TP, FP, FN) = fold (fm_step yt yp) (pair_indices n_samples) (0, 0, 0);
               fm = np_div (Fin (real TP)) (np_sqrt (Fin (real ((TP + FP) * (TP + FN)))))
           in Inr (np_round fm decimal)))"

text \<open>
  The helper \<^verbatim>\<open>cu.compute_homogeneity\<close> is not part of the sources at hand; the three
  entropy-based scores take it as the parameter \<open>compute_homogeneity\<close>.
\<close>

definition homogeneity_score ::
  "(nat list \<Rightarrow> nat list \<Rightarrow> npfloat) \<Rightarrow> ('l::linorder) clustering_metric \<Rightarrow>
   'l list option \<Rightarrow> 'l list option \<Rightarrow> int option \<Rightarrow> error + npfloat" where
  "homogeneity_score compute_homogeneity self y_true y_pred decimal =
     (case get_processed_external_data self y_true y_pred decimal of
        Inl e \<Rightarrow> Inl e
      | Inr (yt, yp, decimal) \<Rightarrow>
          (let cc = compute_homogeneity yt yp in Inr (np_round cc decimal)))"

definition completeness_score ::
  "(nat list \<Rightarrow> nat list \<Rightarrow> npfloat) \<Rightarrow> ('l::linorder) clustering_metric \<Rightarrow>
   'l list option \<Rightarrow> 'l list option \<Rightarrow> int option \<Rightarrow> error + npfloat" where
  "completeness_score compute_homogeneity self y_true y_pred decimal =
     (case get_processed_external_data self y_true y_pred decimal of
        Inl e \<Rightarrow> Inl e
      | Inr (yt, yp, decimal) \<Rightarrow>
          (let cc = compute_homogeneity yp yt in Inr (np_round cc decimal)))"

definition v_measure_score ::
  "(nat list \<Rightarrow> nat list \<Rightarrow> npfloat) \<Rightarrow> ('l::linorder) clustering_metric \<Rightarrow>
   'l list option \<Rightarrow> 'l list option \<Rightarrow> int option \<Rightarrow> error + npfloat" where
  "v_measure_score compute_homogeneity self y_true y_pred decimal =
     (case get_processed_external_data self y_true y_pred decimal of
        Inl e \<Rightarrow> Inl e
      | Inr (yt, yp, decimal) \<Rightarrow>
          (let h = compute_homogeneity yt yp;
               c = compute_homogeneity yp yt;
               cc = (if np_add h c = Fin 0 then Fin 0
                     else np_div (np_mul (Fin 2) (np_mul h c)) (np_add h c))
           in Inr (np_round cc decimal)))"

text \<open>
  The cells returned by the confusion-matrix helper are numpy numbers: a zero denominator
  gives \<^verbatim>\<open>nan\<close> (section 7 of the spec: division by zero propagates as infinity or NaN).
\<close>

definition precision_score ::
  "('l::linorder) clustering_metric \<Rightarrow> 'l list option \<Rightarrow> 'l list option \<Rightarrow> int option \<Rightarrow>
   error + npfloat" where
  "precision_score self y_true y_pred decimal =
     (case get_processed_external_data self y_true y_pred decimal of
        Inl e \<Rightarrow> Inl e
      | Inr (yt, yp, decimal) \<Rightarrow>
          (case compute_confusion_matrix yt yp of (yy, yn, ny, nn) \<Rightarrow>
             Inr (np_round (np_div (Fin (real yy)) (Fin (real (yy + ny)))) decimal)))"

definition recall_score ::
  "('l::linorder) clustering_metric \<Rightarrow> 'l list option \<Rightarrow> 'l list option \<Rightarrow> int option \<Rightarrow>
   error + npfloat" where
  "recall_score self y_true y_pred decimal =
     (case get_processed_external_data self y_true y_pred decimal of
        Inl e \<Rightarrow> Inl e
      | Inr (yt, yp, decimal) \<Rightarrow>
          (case compute_confusion_matrix yt yp of (yy, yn, ny, nn) \<Rightarrow>
             Inr (np_round (np_div (Fin (real yy)) (Fin (real (yy + yn)))) decimal)))"

definition msg_hubert :: string where
  "msg_hubert = ''The Hubert Gamma score is undefined when y_pred has only 1 cluster.''"

definition hubert_gamma_score ::
  "('l::linorder) clustering_metric \<Rightarrow> 'l list option \<Rightarrow> 'l list option \<Rightarrow> int option \<Rightarrow>
   error + npfloat" where
  "hubert_gamma_score self y_true y_pred decimal =
     (case get_processed_external_data self y_true y_pred decimal of
        Inl e \<Rightarrow> Inl e
      | Inr (yt, yp, decimal) \<Rightarrow>
          (let n_clusters = length (np_unique yp)
           in if n_clusters = 1
              then (if self_raise_error self then Inl (ValueError msg_hubert)
                    else Inr (Fin (- 1)))
              else (case compute_confusion_matrix_normalized yt yp of (yy, yn, ny, nn) \<Rightarrow>
                (let NT = np_add (np_add (np_add yy yn) ny) nn;
                     cc = np_div
                            (np_sub (np_mul NT yy) (np_mul (np_add yy yn) (np_add yy ny)))
                            (np_sqrt (np_mul (np_mul (np_mul (np_add yy yn) (np_add yy ny))
                                                     (np_add nn yn)) (np_add nn ny)))
                 in Inr (np_round cc decimal)))))"

definition msg_phi :: string where
  "msg_phi = ''The Phi score is undefined when y_pred has only 1 cluster.''"

definition phi_score ::
  "('l::linorder) clustering_metric \<Rightarrow> 'l list option \<Rightarrow> 'l list option \<Rightarrow> int option \<Rightarrow>
   error + npfloat" where
  "phi_score self y_true y_pred decimal =
     (case get_processed_external_data self y_true y_pred decimal of
        Inl e \<Rightarrow> Inl e
      | Inr (yt, yp, decimal) \<Rightarrow>
          (let n_clusters = length (np_unique yp)
           in if n_clusters = 1
              then (if self_raise_error self then Inl (ValueError msg_phi)
                    else Inr (self_smallest_value self))
              else (case compute_confusion_matrix_normalized yt yp of (yy, yn, ny, nn) \<Rightarrow>
                (let numerator = np_sub (np_mul yy nn) (np_mul yn ny);
                     denominator = np_mul (np_mul (np_mul (np_add yy yn) (np_add yy ny))
                                                  (np_add yn nn)) (np_add ny nn)
                 in Inr (np_round (np_div numerator denominator) decimal)))))"

subsection \<open>The G-plus index\<close>

text \<open>
  \<^verbatim>\<open>for idx in range(0, n_pairs-1): for jdx in range(idx+1, n_pairs)\<close>. The two arrays are
  \<^verbatim>\<open>np.zeros(n_pairs)\<close> and nothing writes to them before the loop reads them.
  \<^verbatim>\<open>num_discordant_pairs\<close> and \<^verbatim>\<open>n_pairs\<close> are Python ints, so a zero divisor raises.
\<close>

definition g_plus_pairs :: "nat \<Rightarrow> (nat \<times> nat) list" where
  "g_plus_pairs n_pairs =
     concat (map (\<lambda>idx. map (\<lambda>jdx. (idx, jdx)) [idx + 1 ..< n_pairs]) [0 ..< n_pairs - 1])"

definition g_plus_step :: "real list \<Rightarrow> real list \<Rightarrow> nat \<times> nat \<Rightarrow> nat \<Rightarrow> nat" where
  "g_plus_step distances binary_vector ij num_discordant_pairs =
     (case ij of (idx, jdx) \<Rightarrow>
        if binary_vector ! idx = 0 \<and> binary_vector ! jdx = 1
        then num_discordant_pairs + (if distances ! idx > distances ! jdx then 1 else 0)
        else num_discordant_pairs)"

definition g_plus_index ::
  "('l::linorder) clustering_metric \<Rightarrow> real list list option \<Rightarrow> 'l list option \<Rightarrow> int option \<Rightarrow>
   error + npfloat" where
  "g_plus_index self X y_pred decimal =
     (case check_X self X of
        Inl e \<Rightarrow> Inl e
      | Inr X \<Rightarrow>
          (case get_processed_internal_data self y_pred decimal of
             Inl e \<Rightarrow> Inl e
           | Inr (yp, decimal) \<Rightarrow>
               (let num_samples = length X;
                    n_pairs = (num_samples * (num_samples - 1)) div 2;
                    distances = replicate n_pairs (0 :: real);
                    binary_vector = replicate n_pairs (0 :: real);
                    num_discordant_pairs =
                      fold (g_plus_step distances binary_vector) (g_plus_pairs n_pairs) 0
                in if n_pairs * (n_pairs - 1) = 0 then Inl ZeroDivisionError
                   else Inr (np_round
                          (Fin (real (2 * num_discordant_pairs) / real (n_pairs * (n_pairs - 1))))
                          decimal))))"

section \<open>The regression evaluator\<close>

subsection \<open>Arrays and numpy reductions\<close>

text \<open>
  A numpy array of floats is one-dimensional (\<open>Vec\<close>) or two-dimensional (\<open>Mat\<close>). Every
  reduction of the regression metrics runs along axis 0, so a two-dimensional array is held
  as the list of its columns; \<^verbatim>\<open>len(y_true)\<close> is then the length of a column.
\<close>

type_synonym column = "npfloat list"

datatype ndarray = Vec column | Mat "column list"

text \<open>The \<^verbatim>\<open>multi_output\<close> argument: the string \<^verbatim>\<open>"raw_values"\<close> or a list of weights.\<close>

datatype multi_output = RawValues | Weights "real list"

text \<open>What a metric returns: a float for one column, an array with one entry per column.\<close>

datatype metric_value = Scalar npfloat | PerColumn "npfloat list"

fun mv_map :: "(npfloat \<Rightarrow> npfloat) \<Rightarrow> metric_value \<Rightarrow> metric_value" where
  "mv_map f (Scalar x) = Scalar (f x)"
| "mv_map f (PerColumn xs) = PerColumn (map f xs)"

text \<open>numpy broadcasting of a result against \<open>m\<close> per-column values.\<close>

fun broadcast :: "metric_value \<Rightarrow> nat \<Rightarrow> npfloat list" where
  "broadcast (Scalar x) m = replicate m x"
| "broadcast (PerColumn xs) m = xs"

fun np_abs :: "npfloat \<Rightarrow> npfloat" where
  "np_abs (Fin x) = Fin \<bar>x\<bar>"
| "np_abs PosInf = PosInf"
| "np_abs NegInf = PosInf"
| "np_abs NaN = NaN"

definition np_square :: "npfloat \<Rightarrow> npfloat" where
  "np_square x = np_mul x x"

fun np_log :: "npfloat \<Rightarrow> npfloat" where
  "np_log (Fin x) = (if x < 0 then NaN else if x = 0 then NegInf else Fin (ln x))"
| "np_log PosInf = PosInf"
| "np_log NegInf = NaN"
| "np_log NaN = NaN"

text \<open>\<^verbatim>\<open>a <= b\<close> on floats: false as soon as one side is \<^verbatim>\<open>nan\<close>.\<close>

fun np_less_eq :: "npfloat \<Rightarrow> npfloat \<Rightarrow> bool" where
  "np_less_eq NaN _ = False"
| "np_less_eq _ NaN = False"
| "np_less_eq (Fin x) (Fin y) = (x \<le> y)"
| "np_less_eq NegInf _ = True"
| "np_less_eq _ PosInf = True"
| "np_less_eq PosInf _ = False"
| "np_less_eq _ NegInf = False"

definition np_less :: "npfloat \<Rightarrow> npfloat \<Rightarrow> bool" where
  "np_less a b = (np_less_eq a b \<and> a \<noteq> b)"

definition np_sum :: "npfloat list \<Rightarrow> npfloat" where
  "np_sum xs = foldr np_add xs (Fin 0)"

definition np_mean :: "npfloat list \<Rightarrow> npfloat" where
  "np_mean xs = np_div (np_sum xs) (Fin (real (length xs)))"

text \<open>\<^verbatim>\<open>np.std\<close>: the population standard deviation, \<open>sqrt(mean(abs(x - mean(x)) ** 2))\<close>.\<close>

definition np_std :: "npfloat list \<Rightarrow> npfloat" where
  "np_std xs =
     (let m = np_mean xs
      in np_sqrt (np_mean (map (\<lambda>x. np_square (np_abs (np_sub x m))) xs)))"

definition np_maximum :: "npfloat \<Rightarrow> npfloat \<Rightarrow> npfloat" where
  "np_maximum a b = (if a = NaN \<or> b = NaN then NaN else if np_less_eq a b then b else a)"

definition np_minimum :: "npfloat \<Rightarrow> npfloat \<Rightarrow> npfloat" where
  "np_minimum a b = (if a = NaN \<or> b = NaN then NaN else if np_less_eq a b then a else b)"

definition msg_zero_size :: string where
  "msg_zero_size = ''zero-size array to reduction operation which has no identity''"

definition np_max :: "npfloat list \<Rightarrow> error + npfloat" where
  "np_max xs = (case xs of [] \<Rightarrow> Inl (ValueError msg_zero_size) | x # rest \<Rightarrow> Inr (fold np_maximum rest x))"

definition np_min :: "npfloat list \<Rightarrow> error + npfloat" where
  "np_min xs = (case xs of [] \<Rightarrow> Inl (ValueError msg_zero_size) | x # rest \<Rightarrow> Inr (fold np_minimum rest x))"

text \<open>
  \<^verbatim>\<open>np.round(x, decimal)\<close> where \<^verbatim>\<open>decimal\<close> may still be \<^verbatim>\<open>None\<close>: numpy wants an integer
  there and raises \<^verbatim>\<open>TypeError\<close> otherwise.
\<close>

definition msg_round_none :: string where
  "msg_round_none = ''NoneType object cannot be interpreted as an integer''"

definition np_round_value :: "metric_value \<Rightarrow> int option \<Rightarrow> error + metric_value" where
  "np_round_value v decimal =
     (case decimal of
        None \<Rightarrow> Inl (TypeError msg_round_none)
      | Some d \<Rightarrow> Inr (mv_map (\<lambda>x. np_round x d) v))"

subsection \<open>Input preparation and aggregation\<close>

record regression_metric =
  rm_y_true :: "ndarray option"
  rm_y_pred :: "ndarray option"
  rm_decimal :: int

definition RegressionMetric :: "ndarray option \<Rightarrow> ndarray option \<Rightarrow> int \<Rightarrow> regression_metric" where
  "RegressionMetric y_true y_pred decimal =
     \<lparr> rm_y_true = y_true, rm_y_pred = y_pred, rm_decimal = decimal \<rparr>"

text \<open>The arrays a metric works on once its inputs are prepared; \<open>OneDim\<close> is \<^verbatim>\<open>one_dim = True\<close>.\<close>

datatype prepared = OneDim column column | MultiDim "column list" "column list"

fun as_arrays :: "prepared \<Rightarrow> ndarray \<times> ndarray" where
  "as_arrays (OneDim t p) = (Vec t, Vec p)"
| "as_arrays (MultiDim ts ps) = (Mat ts, Mat ps)"

fun both_positive :: "npfloat \<times> npfloat \<Rightarrow> bool" where
  "both_positive (t, p) = (np_less (Fin 0) t \<and> np_less (Fin 0) p)"

fun pred_nonzero :: "npfloat \<times> npfloat \<Rightarrow> bool" where
  "pred_nonzero (t, p) = (p \<noteq> Fin 0)"

definition filter_rows :: "bool \<Rightarrow> bool \<Rightarrow> (npfloat \<times> npfloat) list \<Rightarrow> (npfloat \<times> npfloat) list" where
  "filter_rows clean positive_only rows =
     (let rows = (if positive_only then filter both_positive rows else rows)
      in if clean then filter pred_nonzero rows else rows)"

definition filter_columns :: "bool \<Rightarrow> bool \<Rightarrow> column \<times> column \<Rightarrow> column \<times> column" where
  "filter_columns clean positive_only tp =
     (let rows = filter_rows clean positive_only (zip (fst tp) (snd tp))
      in (map fst rows, map snd rows))"

definition format_regression_data :: "ndarray \<Rightarrow> ndarray \<Rightarrow> error + prepared" where
  "format_regression_data y_true y_pred =
     (case (y_true, y_pred) of
        (Vec t, Vec p) \<Rightarrow> if length t \<noteq> length p then Inl ShapeError else Inr (OneDim t p)
      | (Mat ts, Mat ps) \<Rightarrow>
          if map length ts \<noteq> map length ps then Inl ShapeError
          else (case (ts, ps) of
                  ([t], [p]) \<Rightarrow> Inr (OneDim t p)
                | _ \<Rightarrow> Inr (MultiDim ts ps))
      | _ \<Rightarrow> Inl ShapeError)"

fun filter_prepared :: "bool \<Rightarrow> bool \<Rightarrow> prepared \<Rightarrow> prepared" where
  "filter_prepared clean positive_only (OneDim t p) =
     (case filter_columns clean positive_only (t, p) of (t', p') \<Rightarrow> OneDim t' p')"
| "filter_prepared clean positive_only (MultiDim ts ps) =
     (let cols = map (filter_columns clean positive_only) (zip ts ps)
      in MultiDim (map fst cols) (map snd cols))"

text \<open>
  Modelled from the spec: \<^verbatim>\<open>Evaluator.get_preprocessed_data\<close> belongs to the base class
  \<^verbatim>\<open>permetrics.evaluator\<close>, which is not part of the sources at hand. Section 4.1: inputs
  become numeric arrays and a length mismatch fails with \<open>ShapeError\<close>; \<open>positive_only\<close> keeps
  the entries where both values are strictly positive; \<open>clean\<close> drops the rows whose
  prediction is zero, column by column for multi-output data; a 1-D array, or a 2-D array
  with one column, is single-column; \<open>decimal\<close> falls back to the instance default and a
  negative one fails with \<open>ValueError\<close>. Section 6: an input absent from both the call and
  the instance is an error. The spec gives no message texts; the empty message stands for them.
\<close>

definition get_preprocessed_data ::
  "regression_metric \<Rightarrow> ndarray option \<Rightarrow> ndarray option \<Rightarrow> bool \<Rightarrow> int option \<Rightarrow> bool \<Rightarrow>
   error + (prepared \<times> int)" where
  "get_preprocessed_data self y_true y_pred clean decimal positive_only =
     (let y_true = (case y_true of None \<Rightarrow> rm_y_true self | Some a \<Rightarrow> Some a);
          y_pred = (case y_pred of None \<Rightarrow> rm_y_pred self | Some a \<Rightarrow> Some a);
          decimal = (case decimal of None \<Rightarrow> rm_decimal self | Some d \<Rightarrow> d)
      in case (y_true, y_pred) of
           (Some yt, Some yp) \<Rightarrow>
             (case format_regression_data yt yp of
                Inl e \<Rightarrow> Inl e
              | Inr arrays \<Rightarrow>
                  if decimal < 0 then Inl (ValueError [])
                  else Inr (filter_prepared clean positive_only arrays, decimal))
         | _ \<Rightarrow> Inl (ValueError []))"

text \<open>
  Modelled from the spec: \<^verbatim>\<open>Evaluator.get_multi_output_result\<close>, of the same absent base
  class. Section 4.5: \<^verbatim>\<open>"raw_values"\<close> returns the per-column vector, rounded; a sequence of
  weights returns the weighted sum normalised by the sum of the weights; rounding is the
  last step. Weights of another length than the vector are a shape mismatch (section 7).
\<close>

definition get_multi_output_result :: "npfloat list \<Rightarrow> multi_output \<Rightarrow> int \<Rightarrow> error + metric_value" where
  "get_multi_output_result result multi_output decimal =
     (case multi_output of
        RawValues \<Rightarrow> Inr (PerColumn (map (\<lambda>x. np_round x decimal) result))
      | Weights w \<Rightarrow>
          if length w \<noteq> length result then Inl ShapeError
          else Inr (Scalar (np_round
                 (np_div (np_sum (map (\<lambda>(wi, x). np_mul (Fin wi) x) (zip w result)))
                         (Fin (sum_list w)))
                 decimal)))"

subsection \<open>Error metrics\<close>

text \<open>The per-column formulas, before any rounding.\<close>

definition abs_error_mean :: "column \<Rightarrow> column \<Rightarrow> npfloat" where
  "abs_error_mean y_true y_pred =
     np_div (np_sum (map (\<lambda>(t, p). np_abs (np_sub p t)) (zip y_true y_pred)))
            (Fin (real (length y_true)))"

definition squared_error_mean :: "column \<Rightarrow> column \<Rightarrow> npfloat" where
  "squared_error_mean y_true y_pred =
     np_div (np_sum (map (\<lambda>(t, p). np_square (np_sub p t)) (zip y_true y_pred)))
            (Fin (real (length y_true)))"

definition mean_absolute_error ::
  "regression_metric \<Rightarrow> ndarray option \<Rightarrow> ndarray option \<Rightarrow> multi_output \<Rightarrow> int option \<Rightarrow>
   bool \<Rightarrow> bool \<Rightarrow> error + metric_value" where
  "mean_absolute_error self y_true y_pred multi_output decimal clean positive_only =
     (case get_preprocessed_data self y_true y_pred clean decimal positive_only of
        Inl e \<Rightarrow> Inl e
      | Inr (OneDim t p, decimal) \<Rightarrow> Inr (Scalar (np_round (abs_error_mean t p) decimal))
      | Inr (MultiDim ts ps, decimal) \<Rightarrow>
          get_multi_output_result (map (\<lambda>(t, p). abs_error_mean t p) (zip ts ps))
            multi_output decimal)"

definition mean_squared_error ::
  "regression_metric \<Rightarrow> ndarray option \<Rightarrow> ndarray option \<Rightarrow> multi_output \<Rightarrow> int option \<Rightarrow>
   bool \<Rightarrow> bool \<Rightarrow> error + metric_value" where
  "mean_squared_error self y_true y_pred multi_output decimal clean positive_only =
     (case get_preprocessed_data self y_true y_pred clean decimal positive_only of
        Inl e \<Rightarrow> Inl e
      | Inr (OneDim t p, decimal) \<Rightarrow> Inr (Scalar (np_round (squared_error_mean t p) decimal))
      | Inr (MultiDim ts ps, decimal) \<Rightarrow>
          get_multi_output_result (map (\<lambda>(t, p). squared_error_mean t p) (zip ts ps))
            multi_output decimal)"

definition root_mean_squared_error ::
  "regression_metric \<Rightarrow> ndarray option \<Rightarrow> ndarray option \<Rightarrow> multi_output \<Rightarrow> int option \<Rightarrow>
   bool \<Rightarrow> bool \<Rightarrow> error + metric_value" where
  "root_mean_squared_error self y_true y_pred multi_output decimal clean positive_only =
     (case get_preprocessed_data self y_true y_pred clean decimal positive_only of
        Inl e \<Rightarrow> Inl e
      | Inr (OneDim t p, decimal) \<Rightarrow>
          Inr (Scalar (np_round (np_sqrt (squared_error_mean t p)) decimal))
      | Inr (MultiDim ts ps, decimal) \<Rightarrow>
          get_multi_output_result (map (\<lambda>(t, p). np_sqrt (squared_error_mean t p)) (zip ts ps))
            multi_output decimal)"

subsection \<open>Correlation and efficiency\<close>

text \<open>
  Line 406 of \<^verbatim>\<open>regression.py\<close> reads the module attribute \<^verbatim>\<open>np.m1\<close> where the local \<^verbatim>\<open>m1\<close> is
  meant. numpy has no attribute of that name, so evaluating it raises \<^verbatim>\<open>AttributeError\<close>.
\<close>

definition np_m1 :: "error + npfloat" where
  "np_m1 = Inl (AttributeError ''module numpy has no attribute m1'')"

definition pearson_column :: "column \<Rightarrow> column \<Rightarrow> npfloat" where
  "pearson_column y_true y_pred =
     (let m1 = np_mean y_true;
          m2 = np_mean y_pred;
          numerator = np_sum (map (\<lambda>(t, p). np_mul (np_sub t m1) (np_sub p m2)) (zip y_true y_pred));
          denominator =
            np_mul (np_sqrt (np_sum (map (\<lambda>t. np_square (np_sub t m1)) y_true)))
                   (np_sqrt (np_sum (map (\<lambda>p. np_square (np_sub p m2)) y_pred)))
      in np_div numerator denominator)"

definition pearson_correlation_coefficient ::
  "regression_metric \<Rightarrow> ndarray option \<Rightarrow> ndarray option \<Rightarrow> multi_output \<Rightarrow> int option \<Rightarrow>
   bool \<Rightarrow> bool \<Rightarrow> error + metric_value" where
  "pearson_correlation_coefficient self y_true y_pred multi_output decimal clean positive_only =
     (case get_preprocessed_data self y_true y_pred clean decimal positive_only of
        Inl e \<Rightarrow> Inl e
      | Inr (OneDim t p, decimal) \<Rightarrow>
          (let m1 = np_mean t;
               m2 = np_mean p;
               numerator = np_sum (map (\<lambda>(a, b). np_mul (np_sub a m1) (np_sub b m2)) (zip t p))
           in case np_m1 of
                Inl e \<Rightarrow> Inl e
              | Inr m \<Rightarrow>
                  Inr (Scalar (np_round
                    (np_div numerator
                       (np_mul (np_sqrt (np_sum (map (\<lambda>a. np_square (np_sub a m)) t)))
                               (np_sqrt (np_sum (map (\<lambda>b. np_square (np_sub b m2)) p)))))
                    decimal)))
      | Inr (MultiDim ts ps, decimal) \<Rightarrow>
          get_multi_output_result (map (\<lambda>(t, p). pearson_column t p) (zip ts ps))
            multi_output decimal)"

definition pearson_correlation_coefficient_square ::
  "regression_metric \<Rightarrow> ndarray option \<Rightarrow> ndarray option \<Rightarrow> multi_output \<Rightarrow> int option \<Rightarrow>
   bool \<Rightarrow> bool \<Rightarrow> error + metric_value" where
  "pearson_correlation_coefficient_square self y_true y_pred multi_output decimal clean positive_only =
     (case pearson_correlation_coefficient self y_true y_pred multi_output decimal clean positive_only of
        Inl e \<Rightarrow> Inl e
      | Inr result \<Rightarrow> np_round_value (mv_map np_square result) decimal)"

definition kge_formula :: "npfloat \<Rightarrow> column \<Rightarrow> column \<Rightarrow> npfloat" where
  "kge_formula r y_true y_pred =
     (let beta = np_div (np_mean y_pred) (np_mean y_true);
          gamma = np_div (np_div (np_std y_pred) (np_mean y_pred))
                         (np_div (np_std y_true) (np_mean y_true))
      in np_sub (Fin 1)
           (np_sqrt (np_add (np_add (np_square (np_sub r (Fin 1)))
                                    (np_square (np_sub beta (Fin 1))))
                            (np_square (np_sub gamma (Fin 1))))))"

definition kling_gupta_efficiency ::
  "regression_metric \<Rightarrow> ndarray option \<Rightarrow> ndarray option \<Rightarrow> multi_output \<Rightarrow> int option \<Rightarrow>
   bool \<Rightarrow> bool \<Rightarrow> error + metric_value" where
  "kling_gupta_efficiency self y_true y_pred multi_output decimal clean positive_only =
     (case get_preprocessed_data self y_true y_pred clean decimal positive_only of
        Inl e \<Rightarrow> Inl e
      | Inr (arrays, decimal) \<Rightarrow>
          (case pearson_correlation_coefficient self
                  (Some (fst (as_arrays arrays))) (Some (snd (as_arrays arrays)))
                  multi_output (Some decimal) clean positive_only of
             Inl e \<Rightarrow> Inl e
           | Inr r \<Rightarrow>
               (case arrays of
                  OneDim t p \<Rightarrow>
                    Inr (mv_map (\<lambda>x. np_round x decimal) (mv_map (\<lambda>r. kge_formula r t p) r))
                | MultiDim ts ps \<Rightarrow>
                    get_multi_output_result
                      (map (\<lambda>(r, t, p). kge_formula r t p) (zip (broadcast r (length ts)) (zip ts ps)))
                      multi_output decimal)))"

subsection \<open>A10, A20 and the normalised RMSE\<close>

text \<open>
  \<^verbatim>\<open>div = y_true / y_pred\<close>, then \<^verbatim>\<open>np.where(np.logical_and(div >= lo, div <= hi), 1, 0)\<close> and
  \<^verbatim>\<open>np.mean\<close>. The two indices differ in the bounds only.
\<close>

definition in_band :: "real \<Rightarrow> real \<Rightarrow> npfloat \<Rightarrow> bool" where
  "in_band lo hi x = (np_less_eq (Fin lo) x \<and> np_less_eq x (Fin hi))"

definition band_mean :: "real \<Rightarrow> real \<Rightarrow> column \<Rightarrow> column \<Rightarrow> npfloat" where
  "band_mean lo hi y_true y_pred =
     (let div' = map (\<lambda>(t, p). np_div t p) (zip y_true y_pred);
          div' = map (\<lambda>x. if in_band lo hi x then Fin 1 else Fin 0) div'
      in np_mean div')"

definition a10_index ::
  "regression_metric \<Rightarrow> ndarray option \<Rightarrow> ndarray option \<Rightarrow> multi_output \<Rightarrow> int option \<Rightarrow>
   bool \<Rightarrow> bool \<Rightarrow> error + metric_value" where
  "a10_index self y_true y_pred multi_output decimal clean positive_only =
     (case get_preprocessed_data self y_true y_pred clean decimal positive_only of
        Inl e \<Rightarrow> Inl e
      | Inr (OneDim t p, decimal) \<Rightarrow>
          Inr (Scalar (np_round (band_mean (9 / 10) (11 / 10) t p) decimal))
      | Inr (MultiDim ts ps, decimal) \<Rightarrow>
          get_multi_output_result (map (\<lambda>(t, p). band_mean (9 / 10) (11 / 10) t p) (zip ts ps))
            multi_output decimal)"

definition a20_index ::
  "regression_metric \<Rightarrow> ndarray option \<Rightarrow> ndarray option \<Rightarrow> multi_output \<Rightarrow> int option \<Rightarrow>
   bool \<Rightarrow> bool \<Rightarrow> error + metric_value" where
  "a20_index self y_true y_pred multi_output decimal clean positive_only =
     (case get_preprocessed_data self y_true y_pred clean decimal positive_only of
        Inl e \<Rightarrow> Inl e
      | Inr (OneDim t p, decimal) \<Rightarrow>
          Inr (Scalar (np_round (band_mean (8 / 10) (12 / 10) t p) decimal))
      | Inr (MultiDim ts ps, decimal) \<Rightarrow>
          get_multi_output_result (map (\<lambda>(t, p). band_mean (8 / 10) (12 / 10) t p) (zip ts ps))
            multi_output decimal)"

text \<open>
  The fraction of the samples \<open>(true, pred)\<close> that satisfy a condition: the reading of the
  two indices that the properties below compare the code with.
\<close>

definition fraction_of_samples :: "(npfloat \<times> npfloat \<Rightarrow> bool) \<Rightarrow> column \<Rightarrow> column \<Rightarrow> npfloat" where
  "fraction_of_samples cond y_true y_pred =
     np_div (Fin (real (length (filter cond (zip y_true y_pred))))) (Fin (real (length y_true)))"

definition log_ratio_rms :: "column \<Rightarrow> column \<Rightarrow> npfloat" where
  "log_ratio_rms y_true y_pred =
     np_sqrt (np_div
       (np_sum (map (\<lambda>(t, p). np_square (np_log (np_div (np_add p (Fin 1)) (np_add t (Fin 1)))))
                    (zip y_true y_pred)))
       (Fin (real (length y_true))))"

definition value_range :: "column \<Rightarrow> error + npfloat" where
  "value_range y_true =
     (case np_max y_true of
        Inl e \<Rightarrow> Inl e
      | Inr hi \<Rightarrow> (case np_min y_true of Inl e \<Rightarrow> Inl e | Inr lo \<Rightarrow> Inr (np_sub hi lo)))"

fun collect :: "(error + 'a) list \<Rightarrow> error + 'a list" where
  "collect [] = Inr []"
| "collect (Inl e # rest) = Inl e"
| "collect (Inr x # rest) = (case collect rest of Inl e \<Rightarrow> Inl e | Inr xs \<Rightarrow> Inr (x # xs))"

definition normalized_root_mean_square_error ::
  "regression_metric \<Rightarrow> ndarray option \<Rightarrow> ndarray option \<Rightarrow> int \<Rightarrow> multi_output \<Rightarrow> int option \<Rightarrow>
   bool \<Rightarrow> bool \<Rightarrow> error + metric_value" where
  "normalized_root_mean_square_error self y_true y_pred model multi_output decimal clean positive_only =
     (case get_preprocessed_data self y_true y_pred clean decimal positive_only of
        Inl e \<Rightarrow> Inl e
      | Inr (arrays, decimal) \<Rightarrow>
          (case root_mean_squared_error self
                  (Some (fst (as_arrays arrays))) (Some (snd (as_arrays arrays)))
                  multi_output (Some decimal) clean positive_only of
             Inl e \<Rightarrow> Inl e
           | Inr rmse \<Rightarrow>
               (case arrays of
                  OneDim t p \<Rightarrow>
                    (case (if model = 1 then Inr (mv_map (\<lambda>x. np_div x (np_mean p)) rmse)
                           else if model = 2 then
                             (case value_range t of
                                Inl e \<Rightarrow> Inl e
                              | Inr width \<Rightarrow> Inr (mv_map (\<lambda>x. np_div x width) rmse))
                           else if model = 3 then Inr (Scalar (log_ratio_rms t p))
                           else Inr (mv_map (\<lambda>x. np_div x (np_std p)) rmse)) of
                       Inl e \<Rightarrow> Inl e
                     | Inr result \<Rightarrow> Inr (mv_map (\<lambda>x. np_round x decimal) result))
                | MultiDim ts ps \<Rightarrow>
                    (case (if model = 1 then
                             Inr (map (\<lambda>(x, p). np_div x (np_mean p))
                                      (zip (broadcast rmse (length ps)) ps))
                           else if model = 2 then
                             (case collect (map value_range ts) of
                                Inl e \<Rightarrow> Inl e
                              | Inr widths \<Rightarrow>
                                  Inr (map (\<lambda>(x, width). np_div x width)
                                           (zip (broadcast rmse (length widths)) widths)))
                           else if model = 3 then
                             Inr (map (\<lambda>(t, p). log_ratio_rms t p) (zip ts ps))
                           else
                             Inr (map (\<lambda>(x, p). np_div x (np_std p))
                                      (zip (broadcast rmse (length ps)) ps))) of
                       Inl e \<Rightarrow> Inl e
                     | Inr result \<Rightarrow> get_multi_output_result result multi_output decimal))))"

section \<open>Batch invocation\<close>

text \<open>
  \<^verbatim>\<open>get_metrics_by_list_names\<close>. \<^verbatim>\<open>getattr(self, metric_name)\<close> is a lookup in the table of
  the instance's methods; a method is called without arguments (\<open>None\<close>) or with the
  keyword arguments of a dictionary. The result dictionary is a map from names to results.
  On a length mismatch the source prints a message and calls \<^verbatim>\<open>exit(0)\<close>, which raises
  \<^verbatim>\<open>SystemExit\<close> with code 0, from inside the loop over the names.
\<close>

definition call_and_store ::
  "('p option \<Rightarrow> error + 'v) \<Rightarrow> 'p option \<Rightarrow> string \<Rightarrow> (string \<rightharpoonup> 'v) \<Rightarrow> error + (string \<rightharpoonup> 'v)" where
  "call_and_store obj paras metric_name results =
     (case obj paras of Inl e \<Rightarrow> Inl e | Inr v \<Rightarrow> Inr (results(metric_name \<mapsto> v)))"

fun metrics_loop ::
  "(string \<Rightarrow> ('p option \<Rightarrow> error + 'v) option) \<Rightarrow> nat \<Rightarrow> 'p option list option \<Rightarrow>
   nat \<Rightarrow> string list \<Rightarrow> (string \<rightharpoonup> 'v) \<Rightarrow> error + (string \<rightharpoonup> 'v)" where
  "metrics_loop getattr n list_paras idx [] results = Inr results"
| "metrics_loop getattr n list_paras idx (metric_name # rest) results =
     (case getattr metric_name of
        None \<Rightarrow> Inl (AttributeError metric_name)
      | Some obj \<Rightarrow>
          (case (case list_paras of
                   None \<Rightarrow> call_and_store obj None metric_name results
                 | Some paras \<Rightarrow>
                     if n \<noteq> length paras then Inl (SystemExit 0)
                     else call_and_store obj (paras ! idx) metric_name results) of
             Inl e \<Rightarrow> Inl e
           | Inr results' \<Rightarrow> metrics_loop getattr n list_paras (idx + 1) rest results'))"

definition get_metrics_by_list_names ::
  "(string \<Rightarrow> ('p option \<Rightarrow> error + 'v) option) \<Rightarrow> string list \<Rightarrow> 'p option list option \<Rightarrow>
   error + (string \<rightharpoonup> 'v)" where
  "get_metrics_by_list_names getattr list_metric_names list_paras =
     metrics_loop getattr (length list_metric_names) list_paras 0 list_metric_names Map.empty"

section \<open>The pair-contingency invariant\<close>

lemma cm_step_total:
  "cm_step yt yp ij (yy, yn, ny, nn) = (yy', yn', ny', nn') \<Longrightarrow>
   yy' + yn' + ny' + nn' = Suc (yy + yn + ny + nn)"
  by (cases ij) (auto simp: cm_step_def Let_def split: if_splits)

lemma fold_cm_step_total:
  "fold (cm_step yt yp) ps (yy, yn, ny, nn) = (yy', yn', ny', nn') \<Longrightarrow>
   yy' + yn' + ny' + nn' = length ps + (yy + yn + ny + nn)"
proof (induction ps arbitrary: yy yn ny nn)
  case Nil
  then show ?case by simp
next
  case (Cons p ps)
  obtain a b c d where step: "cm_step yt yp p (yy, yn, ny, nn) = (a, b, c, d)"
    by (metis prod_cases4)
  from Cons.prems step have "fold (cm_step yt yp) ps (a, b, c, d) = (yy', yn', ny', nn')"
    by simp
  from Cons.IH [OF this] cm_step_total [OF step] show ?case by simp
qed

lemma length_pair_row: "length (map (\<lambda>jdx. (idx, jdx)) [idx + 1 ..< n]) = n - Suc idx"
  by simp

lemma twice_sum_pairs_upto:
  "k \<le> n \<Longrightarrow> 2 * (\<Sum>idx\<leftarrow>[0 ..< k]. n - Suc idx) + k * (k + 1) = 2 * k * n"
proof (induction k)
  case 0
  then show ?case by simp
next
  case (Suc k)
  then have IH: "2 * (\<Sum>idx\<leftarrow>[0 ..< k]. n - Suc idx) + k * (k + 1) = 2 * k * n"
    and kn: "Suc k \<le> n" by simp_all
  from kn obtain m where n: "n = Suc k + m" by (metis le_iff_add)
  show ?case using IH unfolding n by (simp add: algebra_simps)
qed

lemma length_pair_indices: "2 * length (pair_indices n) = n * (n - 1)"
proof -
  have len: "length (pair_indices n) = (\<Sum>idx\<leftarrow>[0 ..< n]. n - Suc idx)"
    by (simp add: pair_indices_def length_concat comp_def)
  have "2 * (\<Sum>idx\<leftarrow>[0 ..< n]. n - Suc idx) + n * (n + 1) = 2 * n * n"
    by (rule twice_sum_pairs_upto) simp
  then have "2 * (\<Sum>idx\<leftarrow>[0 ..< n]. n - Suc idx) = n * (n - 1)"
    by (cases n) (simp_all add: algebra_simps)
  with len show ?thesis by simp
qed

text \<open>
  Claim C3. For label vectors of equal length \<open>N \<ge> 2\<close>, the four cells of the pair-contingency
  tuple computed without normalisation add up to \<open>N * (N - 1) / 2\<close>: each unordered pair of
  samples adds one to exactly one cell.
\<close>

theorem contingency_total:
  assumes "length y_true = length y_pred" and "2 \<le> length y_true"
    and "compute_confusion_matrix y_true y_pred = (yy, yn, ny, nn)"
  shows "real (yy + yn + ny + nn) = real (length y_true * (length y_true - 1)) / 2"
proof -
  from assms(3) have "yy + yn + ny + nn = length (pair_indices (length y_true))"
    using fold_cm_step_total [of y_true y_pred "pair_indices (length y_true)" 0 0 0 0 yy yn ny nn]
    by (simp add: compute_confusion_matrix_def)
  then have "2 * (yy + yn + ny + nn) = length y_true * (length y_true - 1)"
    using length_pair_indices [of "length y_true"] by simp
  then have "2 * real (yy + yn + ny + nn) = real (length y_true * (length y_true - 1))"
    by (metis of_nat_mult of_nat_numeral)
  then show ?thesis by simp
qed

theorem contingency_total_witness:
  "length [0, 0, 1, 1 :: nat] = length [0, 1, 1, 1 :: nat] \<and> 2 \<le> length [0, 0, 1, 1 :: nat] \<and>
   compute_confusion_matrix [0, 0, 1, 1] [0, 1, 1, 1] = (1, 1, 2, 2) \<and>
   real (1 + 1 + 2 + 2) = real (length [0, 0, 1, 1 :: nat] * (length [0, 0, 1, 1 :: nat] - 1)) / 2"
proof -
  have cm: "compute_confusion_matrix [0, 0, 1, 1] [0, 1, 1, 1] = (1, 1, 2, 2)"
    by code_simp
  have len: "length [0, 0, 1, 1 :: nat] = length [0, 1, 1, 1 :: nat]" by simp
  have two: "2 \<le> length [0, 0, 1, 1 :: nat]" by simp
  from contingency_total [OF len two cm] cm show ?thesis by simp
qed

section \<open>Properties of the encoding and of the pair loops\<close>

lemma index_of_eq_iff:
  "x \<in> set cs \<Longrightarrow> y \<in> set cs \<Longrightarrow> (index_of x cs = index_of y cs) = (x = y)"
  by (induction cs) auto

lemma length_label_encode: "length (label_encode ys) = length ys"
  by (simp add: label_encode_def)

lemma label_encode_nth_eq_iff:
  assumes "i < length ys" and "j < length ys"
  shows "(label_encode ys ! i = label_encode ys ! j) = (ys ! i = ys ! j)"
proof -
  have "ys ! i \<in> set (sort (remdups ys))" "ys ! j \<in> set (sort (remdups ys))"
    using assms by simp_all
  then show ?thesis
    using assms by (simp add: label_encode_def index_of_eq_iff)
qed

lemma inj_on_label_index: "inj_on (\<lambda>y. index_of y (sort (remdups ys))) (set ys)"
  by (rule inj_onI) (simp add: index_of_eq_iff)

lemma card_set_label_encode: "card (set (label_encode ys)) = card (set ys)"
  by (simp add: label_encode_def card_image inj_on_label_index)

lemma length_np_unique: "length (np_unique xs) = card (set xs)"
  by (simp add: np_unique_def length_remdups_card_conv)

lemma rand_step_swap: "rand_step yp yt ij acc = rand_step yt yp ij acc"
  by (cases ij; cases acc) (auto simp: rand_step_def Let_def)

lemma fm_step_swap:
  "fm_step yp yt ij (TP, FN, FP) = (case fm_step yt yp ij (TP, FP, FN) of (a, b, c) \<Rightarrow> (a, c, b))"
  by (cases ij) (auto simp: fm_step_def Let_def)

lemma fold_fm_step_swap:
  "fold (fm_step yp yt) ps (TP, FN, FP) =
   (case fold (fm_step yt yp) ps (TP, FP, FN) of (a, b, c) \<Rightarrow> (a, c, b))"
proof (induction ps arbitrary: TP FP FN)
  case Nil
  then show ?case by simp
next
  case (Cons p ps)
  obtain a b c where step: "fm_step yt yp p (TP, FP, FN) = (a, b, c)"
    by (metis prod_cases3)
  then have "fm_step yp yt p (TP, FN, FP) = (a, c, b)"
    using fm_step_swap [of yp yt p TP FN FP] by simp
  with step Cons.IH [of a c b] show ?case by simp
qed

lemma cm_step_swap:
  "cm_step yp yt ij (yy, ny, yn, nn) =
   (case cm_step yt yp ij (yy, yn, ny, nn) of (a, b, c, d) \<Rightarrow> (a, c, b, d))"
  by (cases ij) (auto simp: cm_step_def Let_def)

lemma fold_cm_step_swap:
  "fold (cm_step yp yt) ps (yy, ny, yn, nn) =
   (case fold (cm_step yt yp) ps (yy, yn, ny, nn) of (a, b, c, d) \<Rightarrow> (a, c, b, d))"
proof (induction ps arbitrary: yy yn ny nn)
  case Nil
  then show ?case by simp
next
  case (Cons p ps)
  obtain a b c d where step: "cm_step yt yp p (yy, yn, ny, nn) = (a, b, c, d)"
    by (metis prod_cases4)
  then have "cm_step yp yt p (yy, ny, yn, nn) = (a, c, b, d)"
    using cm_step_swap [of yp yt p yy ny yn nn] by simp
  with step Cons.IH [of a c b d] show ?case by simp
qed

lemma compute_confusion_matrix_swap:
  "length yt = length yp \<Longrightarrow>
   compute_confusion_matrix yp yt =
   (case compute_confusion_matrix yt yp of (a, b, c, d) \<Rightarrow> (a, c, b, d))"
  using fold_cm_step_swap [of yp yt "pair_indices (length yt)" 0 0 0 0]
  by (simp add: compute_confusion_matrix_def)

lemma np_add_commute: "np_add a b = np_add b a"
  by (cases a; cases b) (simp_all add: add.commute)

lemma np_mul_commute: "np_mul a b = np_mul b a"
  by (cases a; cases b) (simp_all add: mult.commute)

lemma get_processed_external_data_ok:
  "length a = length b \<Longrightarrow>
   get_processed_external_data self (Some a) (Some b) decimal =
   Inr (label_encode a, label_encode b, case decimal of None \<Rightarrow> self_decimal self | Some d \<Rightarrow> d)"
  by (simp add: get_processed_external_data_def format_external_clustering_data_def)



lemma rand_score_swap:
  assumes "length a = length b"
  shows "rand_score self (Some a) (Some b) decimal = rand_score self (Some b) (Some a) decimal"
proof -
  have "rand_step (label_encode b) (label_encode a) = rand_step (label_encode a) (label_encode b)"
    by (intro ext) (rule rand_step_swap)
  moreover have "(label_encode a = []) = (label_encode b = [])"
    using assms by (auto simp: label_encode_def)
  ultimately show ?thesis
    using assms by (simp add: rand_score_def get_processed_external_data_ok length_label_encode)
qed

lemma fowlkes_mallows_score_swap:
  assumes "length a = length b"
  shows "fowlkes_mallows_score self (Some a) (Some b) decimal =
         fowlkes_mallows_score self (Some b) (Some a) decimal"
proof -
  obtain TP FP FN where f: "fold (fm_step (label_encode a) (label_encode b))
      (pair_indices (length b)) (0, 0, 0) = (TP, FP, FN)"
    by (metis prod_cases3)
  then have g: "fold (fm_step (label_encode b) (label_encode a))
      (pair_indices (length b)) (0, 0, 0) = (TP, FN, FP)"
    using fold_fm_step_swap [of "label_encode b" "label_encode a" "pair_indices (length b)" 0 0 0]
    by simp
  have c: "(TP + FN) * (TP + FP) = (TP + FP) * (TP + FN)"
    by (rule mult.commute)
  show ?thesis
    using assms f g
    by (simp add: fowlkes_mallows_score_def get_processed_external_data_ok length_label_encode c del: of_nat_mult of_nat_add)
qed

lemma precision_recall_swap:
  assumes "length a = length b"
  shows "precision_score self (Some a) (Some b) decimal = recall_score self (Some b) (Some a) decimal"
proof -
  obtain yy yn ny nn where f: "compute_confusion_matrix (label_encode a) (label_encode b) = (yy, yn, ny, nn)"
    by (metis prod_cases4)
  then have g: "compute_confusion_matrix (label_encode b) (label_encode a) = (yy, ny, yn, nn)"
    using compute_confusion_matrix_swap [of "label_encode a" "label_encode b"] assms
    by (simp add: length_label_encode)
  show ?thesis
    using assms f g
    by (simp add: precision_score_def recall_score_def get_processed_external_data_ok)
qed


lemma hubert_gamma_single_cluster_value:
  assumes "length y_true = length y_pred" and "card (set y_pred) = 1"
  shows "hubert_gamma_score self (Some y_true) (Some y_pred) decimal =
         (if self_raise_error self then Inl (ValueError msg_hubert) else Inr (Fin (- 1)))"
  using assms
  by (simp add: hubert_gamma_score_def get_processed_external_data_ok length_np_unique card_set_label_encode)

lemma ClusteringMetric_fields:
  "self_raise_error (ClusteringMetric yt yp X d r bv sv) = r"
  "self_decimal (ClusteringMetric yt yp X d r bv sv) = d"
  "self_y_true (ClusteringMetric yt yp X d r bv sv) = yt"
  "self_y_pred (ClusteringMetric yt yp X d r bv sv) = yp"
  "self_X (ClusteringMetric yt yp X d r bv sv) = X"
  "self_smallest_value (ClusteringMetric yt yp X d r bv None) = NegInf"
  "self_smallest_value (ClusteringMetric yt yp X d r bv (Some v)) = v"
  by (simp_all add: ClusteringMetric_def)

lemma get_processed_external_data_missing:
  assumes "(y_true = None \<and> self_y_true self = None) \<or> (y_pred = None \<and> self_y_pred self = None)"
  shows "get_processed_external_data self y_true y_pred decimal = Inl (ValueError msg_external)"
  using assms
  by (auto simp: get_processed_external_data_def Let_def split: option.splits)

lemma get_processed_internal_data_missing:
  assumes "y_pred = None" and "self_y_pred self = None"
  shows "get_processed_internal_data self y_pred decimal = Inl (ValueError msg_internal)"
  using assms by (simp add: get_processed_internal_data_def)

lemma g_plus_pairs_bound: "(i, j) \<in> set (g_plus_pairs n) \<Longrightarrow> j < n"
  by (auto simp: g_plus_pairs_def)

lemma fold_g_plus_step_zeros:
  "\<forall>p \<in> set ps. snd p < n \<Longrightarrow>
   fold (g_plus_step (replicate n 0) (replicate n 0)) ps acc = acc"
proof (induction ps arbitrary: acc)
  case Nil
  then show ?case by simp
next
  case (Cons p ps)
  obtain i j where p: "p = (i, j)" by (cases p)
  with Cons.prems have "j < n" by simp
  then have "g_plus_step (replicate n 0) (replicate n 0) p acc = acc"
    by (simp add: p g_plus_step_def)
  moreover have "fold (g_plus_step (replicate n 0) (replicate n 0)) ps acc = acc"
    using Cons.prems by (intro Cons.IH) simp
  ultimately show ?case by simp
qed

lemma rint_zero: "rint 0 = 0"
  by (simp add: rint_def)

lemma round_real_zero: "round_real 0 decimal = 0"
  by (simp add: round_real_def rint_zero)

lemma n_pairs_ge3:
  assumes "3 \<le> (n::nat)"
  shows "3 \<le> (n * (n - 1)) div 2"
proof -
  from assms obtain m where n: "n = m + 3" by (metis add.commute le_iff_add)
  have "6 \<le> n * (n - 1)" unfolding n by simp
  then show ?thesis by simp
qed

lemma g_plus_index_value:
  assumes "check_X self X = Inr X'" and "3 \<le> length X'"
    and "get_processed_internal_data self y_pred decimal = Inr r"
  shows "g_plus_index self X y_pred decimal = Inr (Fin 0)"
proof -
  obtain yp d where r: "r = (yp, d)" by (cases r)
  let ?n = "(length X' * (length X' - 1)) div 2"
  have "3 \<le> ?n" using assms(2) by (rule n_pairs_ge3)
  then have nz: "?n * (?n - 1) \<noteq> 0" by simp
  have "fold (g_plus_step (replicate ?n 0) (replicate ?n 0)) (g_plus_pairs ?n) 0 = 0"
    by (rule fold_g_plus_step_zeros) (auto dest: g_plus_pairs_bound)
  then show ?thesis
    using assms(1,3) nz by (simp add: g_plus_index_def r Let_def round_real_zero)
qed

lemma completeness_homogeneity_swap:
  assumes "length a = length b"
  shows "completeness_score H self (Some a) (Some b) decimal =
         homogeneity_score H self (Some b) (Some a) decimal"
  using assms by (simp add: completeness_score_def homogeneity_score_def get_processed_external_data_ok)

lemma v_measure_score_swap:
  assumes "length a = length b"
  shows "v_measure_score H self (Some a) (Some b) decimal =
         v_measure_score H self (Some b) (Some a) decimal"
  using assms
  by (simp add: v_measure_score_def get_processed_external_data_ok Let_def
      np_add_commute [of "H (label_encode a) (label_encode b)"]
      np_mul_commute [of "H (label_encode a) (label_encode b)"])

section \<open>Missing inputs\<close>

text \<open>
  Claim C6. An external clustering metric called with \<open>y_true\<close> or \<open>y_pred\<close> absent from both
  the call and the evaluator instance fails with the ValueError that says \<open>y_true\<close> and
  \<open>y_pred\<close> must be passed; an internal metric called with \<open>y_pred\<close> absent from both fails
  with a ValueError. Nothing is defaulted.
\<close>

theorem missing_input_raises_value_error:
  fixes self :: "('l::linorder) clustering_metric"
  shows
   "((y_true = None \<and> self_y_true self = None) \<or> (y_pred = None \<and> self_y_pred self = None) \<longrightarrow>
       get_processed_external_data self y_true y_pred decimal =
         Inl (ValueError ''You need to pass y_true and y_pred to calculate external clustering metrics.'') \<and>
       rand_score self y_true y_pred decimal = Inl (ValueError msg_external) \<and>
       fowlkes_mallows_score self y_true y_pred decimal = Inl (ValueError msg_external) \<and>
       homogeneity_score H self y_true y_pred decimal = Inl (ValueError msg_external) \<and>
       completeness_score H self y_true y_pred decimal = Inl (ValueError msg_external) \<and>
       v_measure_score H self y_true y_pred decimal = Inl (ValueError msg_external) \<and>
       precision_score self y_true y_pred decimal = Inl (ValueError msg_external) \<and>
       recall_score self y_true y_pred decimal = Inl (ValueError msg_external) \<and>
       hubert_gamma_score self y_true y_pred decimal = Inl (ValueError msg_external) \<and>
       phi_score self y_true y_pred decimal = Inl (ValueError msg_external)) \<and>
    (y_pred = None \<and> self_y_pred self = None \<longrightarrow>
       get_processed_internal_data self y_pred decimal =
         Inl (ValueError ''You need to pass y_pred to calculate external clustering metrics.'') \<and>
       (\<exists>msg. g_plus_index self X y_pred decimal = Inl (ValueError msg)))"
proof (intro conjI impI)
  assume internal: "y_pred = None \<and> self_y_pred self = None"
  then show gpi: "get_processed_internal_data self y_pred decimal =
      Inl (ValueError ''You need to pass y_pred to calculate external clustering metrics.'')"
    using get_processed_internal_data_missing [of y_pred self decimal]
    by (simp add: msg_internal_def)
  show "\<exists>msg. g_plus_index self X y_pred decimal = Inl (ValueError msg)"
  proof (cases "check_X self X")
    case (Inl e)
    then have "e = ValueError msg_X"
      by (auto simp: check_X_def split: option.splits)
    with Inl show ?thesis by (simp add: g_plus_index_def)
  next
    case (Inr x)
    with gpi show ?thesis by (simp add: g_plus_index_def)
  qed
next
  assume "(y_true = None \<and> self_y_true self = None) \<or> (y_pred = None \<and> self_y_pred self = None)"
  then have gpe: "get_processed_external_data self y_true y_pred decimal = Inl (ValueError msg_external)"
    by (rule get_processed_external_data_missing)
  then show "get_processed_external_data self y_true y_pred decimal =
      Inl (ValueError ''You need to pass y_true and y_pred to calculate external clustering metrics.'')"
    by (simp add: msg_external_def)
  show "rand_score self y_true y_pred decimal = Inl (ValueError msg_external)"
    by (simp add: rand_score_def gpe)
  show "fowlkes_mallows_score self y_true y_pred decimal = Inl (ValueError msg_external)"
    by (simp add: fowlkes_mallows_score_def gpe)
  show "homogeneity_score H self y_true y_pred decimal = Inl (ValueError msg_external)"
    by (simp add: homogeneity_score_def gpe)
  show "completeness_score H self y_true y_pred decimal = Inl (ValueError msg_external)"
    by (simp add: completeness_score_def gpe)
  show "v_measure_score H self y_true y_pred decimal = Inl (ValueError msg_external)"
    by (simp add: v_measure_score_def gpe)
  show "precision_score self y_true y_pred decimal = Inl (ValueError msg_external)"
    by (simp add: precision_score_def gpe)
  show "recall_score self y_true y_pred decimal = Inl (ValueError msg_external)"
    by (simp add: recall_score_def gpe)
  show "hubert_gamma_score self y_true y_pred decimal = Inl (ValueError msg_external)"
    by (simp add: hubert_gamma_score_def gpe)
  show "phi_score self y_true y_pred decimal = Inl (ValueError msg_external)"
    by (simp add: phi_score_def gpe)
qed

theorem missing_input_raises_value_error_witness:
  "get_processed_external_data (ClusteringMetric None (Some [0, 1 :: nat]) None 5 False None None)
     None None None =
     Inl (ValueError ''You need to pass y_true and y_pred to calculate external clustering metrics.'') \<and>
   rand_score (ClusteringMetric None (Some [0, 1 :: nat]) None 5 False None None) None None None =
     Inl (ValueError msg_external) \<and>
   get_processed_internal_data (ClusteringMetric (Some [0, 1 :: nat]) None None 5 False None None)
     None None =
     Inl (ValueError ''You need to pass y_pred to calculate external clustering metrics.'')"
  using missing_input_raises_value_error
    [of None "ClusteringMetric None (Some [0, 1 :: nat]) None 5 False None None" None None]
    missing_input_raises_value_error
    [of None "ClusteringMetric (Some [0, 1 :: nat]) None None 5 False None None" None None]
  by (simp add: ClusteringMetric_fields)

section \<open>Symmetry of the pair-counting scores\<close>

text \<open>
  Claim C7. For label vectors \<open>a\<close>, \<open>b\<close> of equal length, the Rand score and the
  Fowlkes-Mallows score do not change when true and predicted labels are swapped, and the
  precision of \<open>(a, b)\<close> is the recall of \<open>(b, a)\<close>.
\<close>

theorem pair_scores_swap:
  fixes a b :: "('l::linorder) list"
  assumes "length a = length b"
  shows "rand_score self (Some a) (Some b) decimal = rand_score self (Some b) (Some a) decimal \<and>
         fowlkes_mallows_score self (Some a) (Some b) decimal =
           fowlkes_mallows_score self (Some b) (Some a) decimal \<and>
         precision_score self (Some a) (Some b) decimal = recall_score self (Some b) (Some a) decimal"
  using assms rand_score_swap fowlkes_mallows_score_swap precision_recall_swap by blast

theorem pair_scores_swap_witness:
  "length [0, 0, 1, 1 :: nat] = length [0, 1, 1, 1 :: nat] \<and>
   rand_score (ClusteringMetric None None None 5 False None None)
     (Some [0, 0, 1, 1 :: nat]) (Some [0, 1, 1, 1 :: nat]) None = Inr (Fin (1 / 2)) \<and>
   rand_score (ClusteringMetric None None None 5 False None None)
     (Some [0, 1, 1, 1 :: nat]) (Some [0, 0, 1, 1 :: nat]) None = Inr (Fin (1 / 2)) \<and>
   fowlkes_mallows_score (ClusteringMetric None None None 5 False None None)
     (Some [0, 0, 1, 1 :: nat]) (Some [0, 1, 1, 1 :: nat]) None =
   fowlkes_mallows_score (ClusteringMetric None None None 5 False None None)
     (Some [0, 1, 1, 1 :: nat]) (Some [0, 0, 1, 1 :: nat]) None \<and>
   precision_score (ClusteringMetric None None None 5 False None None)
     (Some [0, 0, 1, 1 :: nat]) (Some [0, 1, 1, 1 :: nat]) None = Inr (Fin (33333 / 100000)) \<and>
   recall_score (ClusteringMetric None None None 5 False None None)
     (Some [0, 1, 1, 1 :: nat]) (Some [0, 0, 1, 1 :: nat]) None = Inr (Fin (33333 / 100000))"
proof -
  have len: "length [0, 0, 1, 1 :: nat] = length [0, 1, 1, 1 :: nat]" by simp
  have r: "rand_score (ClusteringMetric None None None 5 False None None)
     (Some [0, 0, 1, 1 :: nat]) (Some [0, 1, 1, 1 :: nat]) None = Inr (Fin (1 / 2))"
    by code_simp
  have p: "precision_score (ClusteringMetric None None None 5 False None None)
     (Some [0, 0, 1, 1 :: nat]) (Some [0, 1, 1, 1 :: nat]) None = Inr (Fin (33333 / 100000))"
    by code_simp
  from pair_scores_swap [OF len, of "ClusteringMetric None None None 5 False None None" None] r p len
  show ?thesis by simp
qed

section \<open>Hubert Gamma on a single predicted cluster\<close>

text \<open>
  Claim C2, as the code has it. When \<open>y_pred\<close> holds exactly one distinct label,
  \<open>hubert_gamma_score\<close> returns the fixed literal \<open>-1.0\<close>, the lower end of its range
  \<open>[-1, +1]\<close>, whatever \<open>smallest_value\<close> is configured, when \<open>raise_error\<close> is off; it raises
  a ValueError when \<open>raise_error\<close> is on.
\<close>

theorem hubert_gamma_single_cluster:
  fixes y_true y_pred :: "('l::linorder) list"
  assumes "length y_true = length y_pred" and "card (set y_pred) = 1"
  shows "hubert_gamma_score self (Some y_true) (Some y_pred) decimal =
         (if self_raise_error self
          then Inl (ValueError ''The Hubert Gamma score is undefined when y_pred has only 1 cluster.'')
          else Inr (Fin (- 1)))"
  using hubert_gamma_single_cluster_value [OF assms] by (simp add: msg_hubert_def)

theorem hubert_gamma_single_cluster_witness:
  "length [0, 0, 1, 1 :: nat] = length [0, 0, 0, 0 :: nat] \<and> card (set [0, 0, 0, 0 :: nat]) = 1 \<and>
   hubert_gamma_score (ClusteringMetric None None None 5 False None (Some (Fin (- 7))))
     (Some [0, 0, 1, 1 :: nat]) (Some [0, 0, 0, 0 :: nat]) None = Inr (Fin (- 1)) \<and>
   hubert_gamma_score (ClusteringMetric None None None 5 True None None)
     (Some [0, 0, 1, 1 :: nat]) (Some [0, 0, 0, 0 :: nat]) None =
     Inl (ValueError ''The Hubert Gamma score is undefined when y_pred has only 1 cluster.'')"
proof -
  have len: "length [0, 0, 1, 1 :: nat] = length [0, 0, 0, 0 :: nat]" by simp
  have one: "card (set [0, 0, 0, 0 :: nat]) = 1" by simp
  from hubert_gamma_single_cluster [OF len one] len one
  show ?thesis by (simp add: ClusteringMetric_fields)
qed

text \<open>
  The claim as the spec words it fails: with the default configuration
  (\<open>smallest_value = -inf\<close>, \<open>raise_error\<close> off) the score of \<open>y_pred = [0,0,0,0]\<close> is \<open>-1.0\<close>,
  not the configured sentinel.
\<close>

theorem hubert_gamma_not_smallest_value:
  "hubert_gamma_score (ClusteringMetric None None None 5 False None None)
     (Some [0, 0, 1, 1 :: nat]) (Some [0, 0, 0, 0 :: nat]) None \<noteq>
   Inr (self_smallest_value (ClusteringMetric None None None 5 False None None :: nat clustering_metric))"
proof -
  have "card (set [0, 0, 0, 0 :: nat]) = 1" by simp
  then show ?thesis
    using hubert_gamma_single_cluster_value [of "[0, 0, 1, 1 :: nat]" "[0, 0, 0, 0 :: nat]"]
    by (simp add: ClusteringMetric_fields)
qed

section \<open>The G-plus index\<close>

text \<open>
  Claim C9, as the code has it. For a feature matrix with at least three samples and any
  \<open>y_pred\<close> that passes input resolution, \<open>g_plus_index\<close> returns \<open>0.0\<close>: the binary vector is
  all zeros when the loop reads it, so no pair is ever counted as discordant.
\<close>

theorem g_plus_index_is_zero:
  fixes self :: "('l::linorder) clustering_metric"
  assumes "check_X self X = Inr X'" and "3 \<le> length X'"
    and "get_processed_internal_data self y_pred decimal = Inr r"
  shows "g_plus_index self X y_pred decimal = Inr (Fin 0)"
  using assms by (rule g_plus_index_value)

theorem g_plus_index_is_zero_witness:
  "check_X (ClusteringMetric None None None 5 False None None :: nat clustering_metric)
     (Some [[0, 0], [3, 4], [10, 10]]) = Inr [[0, 0], [3, 4], [10, 10]] \<and>
   3 \<le> length [[0, 0], [3, 4], [10 :: real, 10]] \<and>
   get_processed_internal_data (ClusteringMetric None None None 5 False None None)
     (Some [0, 0, 1 :: nat]) None = Inr ([0, 0, 1], 5) \<and>
   g_plus_index (ClusteringMetric None None None 5 False None None)
     (Some [[0, 0], [3, 4], [10, 10]]) (Some [0, 0, 1 :: nat]) None = Inr (Fin 0)"
proof -
  have x: "check_X (ClusteringMetric None None None 5 False None None :: nat clustering_metric)
     (Some [[0, 0], [3, 4], [10, 10]]) = Inr [[0, 0], [3, 4], [10, 10]]"
    by (simp add: check_X_def)
  have n: "3 \<le> length [[0, 0], [3, 4], [10 :: real, 10]]" by simp
  have y: "get_processed_internal_data (ClusteringMetric None None None 5 False None None)
     (Some [0, 0, 1 :: nat]) None = Inr ([0, 0, 1], 5)"
    by code_simp
  from g_plus_index_is_zero [OF x n y] x n y show ?thesis by simp
qed

text \<open>
  With exactly two samples there is one pair, the divisor \<open>n_pairs * (n_pairs - 1)\<close> is the
  Python int 0, and the call raises instead of returning \<open>0.0\<close>.
\<close>

theorem g_plus_index_two_samples:
  "g_plus_index (ClusteringMetric None None None 5 False None None)
     (Some [[0], [1]]) (Some [0, 1 :: nat]) None = Inl ZeroDivisionError"
  by code_simp

section \<open>Homogeneity, completeness and V-measure\<close>

text \<open>
  Claim C10. For label vectors \<open>a\<close>, \<open>b\<close> of equal length, the completeness of \<open>(a, b)\<close> is the
  homogeneity of \<open>(b, a)\<close>, whatever the conditional-entropy helper computes, and the
  V-measure does not change when \<open>a\<close> and \<open>b\<close> are swapped.
\<close>

theorem completeness_is_swapped_homogeneity:
  fixes a b :: "('l::linorder) list"
  assumes "length a = length b"
  shows "completeness_score compute_homogeneity self (Some a) (Some b) decimal =
           homogeneity_score compute_homogeneity self (Some b) (Some a) decimal \<and>
         v_measure_score compute_homogeneity self (Some a) (Some b) decimal =
           v_measure_score compute_homogeneity self (Some b) (Some a) decimal"
  using assms completeness_homogeneity_swap v_measure_score_swap by blast

theorem completeness_is_swapped_homogeneity_witness:
  "length [0, 0, 1, 1 :: nat] = length [0, 1, 1, 1 :: nat] \<and>
   completeness_score (\<lambda>yt yp. Fin (real (length (remdups yt)) / real (1 + length (remdups yp))))
     (ClusteringMetric None None None 5 False None None)
     (Some [0, 0, 1, 1 :: nat]) (Some [0, 1, 1, 1 :: nat]) None =
   homogeneity_score (\<lambda>yt yp. Fin (real (length (remdups yt)) / real (1 + length (remdups yp))))
     (ClusteringMetric None None None 5 False None None)
     (Some [0, 1, 1, 1 :: nat]) (Some [0, 0, 1, 1 :: nat]) None \<and>
   v_measure_score (\<lambda>yt yp. Fin (real (length (remdups yt)) / real (1 + length (remdups yp))))
     (ClusteringMetric None None None 5 False None None)
     (Some [0, 0, 1, 1 :: nat]) (Some [0, 1, 1, 1 :: nat]) None =
   v_measure_score (\<lambda>yt yp. Fin (real (length (remdups yt)) / real (1 + length (remdups yp))))
     (ClusteringMetric None None None 5 False None None)
     (Some [0, 1, 1, 1 :: nat]) (Some [0, 0, 1, 1 :: nat]) None"
proof -
  have len: "length [0, 0, 1, 1 :: nat] = length [0, 1, 1, 1 :: nat]" by simp
  from completeness_is_swapped_homogeneity [OF len] len show ?thesis by blast
qed

end
